theory Spec2Isabelle
  imports Main "HOL-Library.Sublist"
begin

section \<open>Python values\<close>

text \<open>
  The values that flow through \<^verbatim>\<open>backend/app.py\<close>: what \<^verbatim>\<open>response.json()\<close> parses
  (None, bool, int, str, list, dict with string keys) and the datetime that the document
  store returns for a server timestamp. A dict is an association list read with
  \<open>map_of\<close>. Integers are Python's unbounded ints. JSON numbers with a fraction or an
  exponent (Python floats) are outside the model.
\<close>

datatype pyval =
    PNone
  | PBool bool
  | PInt int
  | PStr string
  | PTime nat
  | PList "pyval list"
  | PDict "(string \<times> pyval) list"

datatype py_error =
    RequestException string
  | JSONDecodeError string
  | AttributeError string
  | KeyError string
  | TypeError string
  | ValueError string
  | StoreError string

definition quoted :: "string \<Rightarrow> string" where
  "quoted s = CHR 0x27 # s @ [CHR 0x27]"

text \<open>\<^verbatim>\<open>str(e)\<close>: the message of the exception; a KeyError prints the repr of its key.\<close>

fun str_exc :: "py_error \<Rightarrow> string" where
  "str_exc (RequestException m) = m"
| "str_exc (JSONDecodeError m) = m"
| "str_exc (AttributeError m) = m"
| "str_exc (KeyError k) = quoted k"
| "str_exc (TypeError m) = m"
| "str_exc (ValueError m) = m"
| "str_exc (StoreError m) = m"

fun type_name :: "pyval \<Rightarrow> string" where
  "type_name PNone = ''NoneType''"
| "type_name (PBool _) = ''bool''"
| "type_name (PInt _) = ''int''"
| "type_name (PStr _) = ''str''"
| "type_name (PTime _) = ''DatetimeWithNanoseconds''"
| "type_name (PList _) = ''list''"
| "type_name (PDict _) = ''dict''"

text \<open>Truth value testing, as \<^verbatim>\<open>if x\<close> and \<^verbatim>\<open>x and y\<close> do it.\<close>

fun truthy :: "pyval \<Rightarrow> bool" where
  "truthy PNone = False"
| "truthy (PBool b) = b"
| "truthy (PInt n) = (n \<noteq> 0)"
| "truthy (PStr s) = (s \<noteq> [])"
| "truthy (PTime _) = True"
| "truthy (PList xs) = (xs \<noteq> [])"
| "truthy (PDict kvs) = (kvs \<noteq> [])"

text \<open>\<^verbatim>\<open>x.get(key)\<close>: only a dict has the method; a missing key gives None.\<close>

fun py_get :: "pyval \<Rightarrow> string \<Rightarrow> py_error + pyval" where
  "py_get (PDict kvs) k = (case map_of kvs k of None \<Rightarrow> Inr PNone | Some v \<Rightarrow> Inr v)"
| "py_get v k =
     Inl (AttributeError (quoted (type_name v) @ '' object has no attribute '' @ quoted ''get''))"

text \<open>\<^verbatim>\<open>x[key]\<close> with a string key (message texts as of CPython 3.11).\<close>

fun py_getitem :: "pyval \<Rightarrow> string \<Rightarrow> py_error + pyval" where
  "py_getitem (PDict kvs) k = (case map_of kvs k of None \<Rightarrow> Inl (KeyError k) | Some v \<Rightarrow> Inr v)"
| "py_getitem (PList xs) k = Inl (TypeError ''list indices must be integers or slices, not str'')"
| "py_getitem (PStr s) k = Inl (TypeError (''string indices must be integers, not '' @ quoted ''str''))"
| "py_getitem v k = Inl (TypeError (quoted (type_name v) @ '' object is not subscriptable''))"

text \<open>Sequencing of steps that may raise: the first exception ends the computation.\<close>

definition bind_exc :: "py_error + 'a \<Rightarrow> ('a \<Rightarrow> py_error + 'b) \<Rightarrow> py_error + 'b" where
  "bind_exc m f = (case m of Inl e \<Rightarrow> Inl e | Inr v \<Rightarrow> f v)"

subsection \<open>Comparison and arithmetic\<close>

text \<open>bool is a subclass of int: True and False compare and subtract as 1 and 0.\<close>

fun num_of :: "pyval \<Rightarrow> int option" where
  "num_of (PInt n) = Some n"
| "num_of (PBool b) = Some (if b then 1 else 0)"
| "num_of _ = None"

text \<open>\<^verbatim>\<open>==\<close> never raises on these values.\<close>

fun py_eq :: "pyval \<Rightarrow> pyval \<Rightarrow> bool"
  and py_eq_list :: "pyval list \<Rightarrow> pyval list \<Rightarrow> bool"
  and py_eq_items :: "(string \<times> pyval) list \<Rightarrow> (string \<times> pyval) list \<Rightarrow> bool"
  and py_eq_find :: "pyval \<Rightarrow> string \<Rightarrow> (string \<times> pyval) list \<Rightarrow> bool"
where
  "py_eq PNone w = (w = PNone)"
| "py_eq (PBool b) w = (num_of w = Some (if b then 1 else 0))"
| "py_eq (PInt n) w = (num_of w = Some n)"
| "py_eq (PStr s) w = (w = PStr s)"
| "py_eq (PTime t) w = (w = PTime t)"
| "py_eq (PList xs) (PList ys) = py_eq_list xs ys"
| "py_eq (PList xs) w = False"
| "py_eq (PDict a) (PDict b) =
     (length (remdups (map fst a)) = length (remdups (map fst b)) \<and> py_eq_items a b)"
| "py_eq (PDict a) w = False"
| "py_eq_list [] ys = (ys = [])"
| "py_eq_list (x # xs) [] = False"
| "py_eq_list (x # xs) (y # ys) = (py_eq x y \<and> py_eq_list xs ys)"
| "py_eq_items [] b = True"
| "py_eq_items ((k, v) # a) b = (py_eq_find v k b \<and> py_eq_items a b)"
| "py_eq_find v k [] = False"
| "py_eq_find v k ((k', w) # b) = (if k = k' then py_eq v w else py_eq_find v k b)"

text \<open>Strings order by code point, which on UTF-8 bytes is the order of the bytes.\<close>

fun str_lt :: "string \<Rightarrow> string \<Rightarrow> bool" where
  "str_lt [] [] = False"
| "str_lt [] (d # t) = True"
| "str_lt (c # s) [] = False"
| "str_lt (c # s) (d # t) =
     (if c = d then str_lt s t else (of_char c :: nat) < of_char d)"

definition not_supported :: "pyval \<Rightarrow> pyval \<Rightarrow> py_error" where
  "not_supported v w =
     TypeError (quoted ''<'' @ '' not supported between instances of '' @
                quoted (type_name v) @ '' and '' @ quoted (type_name w))"

text \<open>
  \<^verbatim>\<open>v < w\<close>: numbers with numbers, strings with strings, datetimes with datetimes, and
  lists at their first differing element (or by length); everything else raises TypeError.
\<close>

fun py_lt :: "pyval \<Rightarrow> pyval \<Rightarrow> py_error + bool"
  and py_lt_list :: "pyval list \<Rightarrow> pyval list \<Rightarrow> py_error + bool"
where
  "py_lt (PList xs) (PList ys) = py_lt_list xs ys"
| "py_lt (PStr s) (PStr t) = Inr (str_lt s t)"
| "py_lt (PTime s) (PTime t) = Inr (s < t)"
| "py_lt v w =
     (case (num_of v, num_of w) of
        (Some a, Some b) \<Rightarrow> Inr (a < b)
      | _ \<Rightarrow> Inl (not_supported v w))"
| "py_lt_list [] [] = Inr False"
| "py_lt_list [] (y # ys) = Inr True"
| "py_lt_list (x # xs) [] = Inr False"
| "py_lt_list (x # xs) (y # ys) = (if py_eq x y then py_lt_list xs ys else py_lt x y)"

text \<open>
  \<^verbatim>\<open>min(xs)\<close>: the running minimum is replaced by an item that is \<open><\<close> it, so the first
  of several equal minima is returned.
\<close>

fun min_from :: "pyval \<Rightarrow> pyval list \<Rightarrow> py_error + pyval" where
  "min_from m [] = Inr m"
| "min_from m (x # xs) =
     (case py_lt x m of Inl e \<Rightarrow> Inl e | Inr b \<Rightarrow> min_from (if b then x else m) xs)"

fun py_min :: "pyval list \<Rightarrow> py_error + pyval" where
  "py_min [] = Inl (ValueError ''min() arg is an empty sequence'')"
| "py_min (x # xs) = min_from x xs"

text \<open>
  \<^verbatim>\<open>v - w\<close>. The difference of two datetimes is a timedelta, which \<^verbatim>\<open>jsonify\<close> rejects
  with a TypeError inside the same \<^verbatim>\<open>try\<close>; the model raises that TypeError here.
\<close>

fun py_sub :: "pyval \<Rightarrow> pyval \<Rightarrow> py_error + pyval" where
  "py_sub (PTime s) (PTime t) = Inl (TypeError ''Object of type timedelta is not JSON serializable'')"
| "py_sub v w =
     (case (num_of v, num_of w) of
        (Some a, Some b) \<Rightarrow> Inr (PInt (a - b))
      | _ \<Rightarrow> Inl (TypeError (''unsupported operand type(s) for -: '' @
                 quoted (type_name v) @ '' and '' @ quoted (type_name w))))"

section \<open>The document store\<close>

text \<open>
  The Firestore collection \<^verbatim>\<open>leetcode_rank\<close>, as far as the program uses it. A stored
  document carries the time the server assigned when it was written, which is the sort
  key of both queries, and its other fields. Documents that share a timestamp are kept
  by the store in one fixed relative order, which the list order among them stands for.
  The store accepts every value (its limits on integer width and nesting are outside
  the model); when it is unreachable or rejects calls, \<open>outage\<close> holds the message of
  the exception that every call raises.
\<close>

record document =
  timestamp :: nat
  content :: "(string \<times> pyval) list"

record firestore =
  documents :: "document list"
  outage :: "string option"

datatype field_value = Value pyval | SERVER_TIMESTAMP

datatype direction = ASCENDING | DESCENDING

text \<open>\<^verbatim>\<open>doc.to_dict()\<close>\<close>

definition to_dict :: "document \<Rightarrow> pyval" where
  "to_dict doc = PDict ((''timestamp'', PTime (timestamp doc)) # content doc)"

text \<open>
  Writing a document: the sentinel \<^verbatim>\<open>firestore.SERVER_TIMESTAMP\<close>, which both writers pass
  under the key \<^verbatim>\<open>timestamp\<close> and nowhere else, is replaced by the server's time.
\<close>

fun plain_fields :: "(string \<times> field_value) list \<Rightarrow> (string \<times> pyval) list" where
  "plain_fields [] = []"
| "plain_fields ((k, Value v) # kvs) = (k, v) # plain_fields kvs"
| "plain_fields ((k, SERVER_TIMESTAMP) # kvs) = plain_fields kvs"

definition new_document :: "(string \<times> field_value) list \<Rightarrow> nat \<Rightarrow> document" where
  "new_document data now = \<lparr>timestamp = now, content = plain_fields data\<rparr>"

text \<open>\<^verbatim>\<open>db.collection("leetcode_rank").add(data)\<close>\<close>

definition collection_add ::
  "firestore \<Rightarrow> (string \<times> field_value) list \<Rightarrow> nat \<Rightarrow> py_error + firestore" where
  "collection_add db data now =
     (case outage db of
        Some m \<Rightarrow> Inl (StoreError m)
      | None \<Rightarrow> Inr (db\<lparr>documents := documents db @ [new_document data now]\<rparr>))"

text \<open>\<^verbatim>\<open>db.collection("leetcode_rank").document().set(data)\<close>: a new document as well.\<close>

definition document_set ::
  "firestore \<Rightarrow> (string \<times> field_value) list \<Rightarrow> nat \<Rightarrow> py_error + firestore" where
  "document_set db data now =
     (case outage db of
        Some m \<Rightarrow> Inl (StoreError m)
      | None \<Rightarrow> Inr (db\<lparr>documents := documents db @ [new_document data now]\<rparr>))"

text \<open>
  \<^verbatim>\<open>.order_by("timestamp", direction=...)\<close>, \<^verbatim>\<open>.limit(n)\<close> and \<^verbatim>\<open>.stream()\<close>. The
  descending order is the ascending one reversed, ties included.
\<close>

fun order_by :: "direction \<Rightarrow> document list \<Rightarrow> document list" where
  "order_by ASCENDING docs = sort_key timestamp docs"
| "order_by DESCENDING docs = rev (sort_key timestamp docs)"

definition limit :: "nat \<Rightarrow> document list \<Rightarrow> document list" where
  "limit n docs = take n docs"

definition stream :: "firestore \<Rightarrow> (document list \<Rightarrow> document list) \<Rightarrow> py_error + document list" where
  "stream db query =
     (case outage db of
        Some m \<Rightarrow> Inl (StoreError m)
      | None \<Rightarrow> Inr (query (documents db)))"

section \<open>The upstream GraphQL endpoint\<close>

text \<open>
  What one POST to the endpoint gives: \<^verbatim>\<open>requests.post\<close> raises, or there is a response
  whose body \<^verbatim>\<open>response.json()\<close> parses or rejects. The status code is never read.
\<close>

datatype http_response = NotJson string | Json pyval

datatype upstream = TransportError string | Responded http_response

definition requests_post :: "upstream \<Rightarrow> py_error + http_response" where
  "requests_post u =
     (case u of TransportError m \<Rightarrow> Inl (RequestException m) | Responded r \<Rightarrow> Inr r)"

definition response_json :: "http_response \<Rightarrow> py_error + pyval" where
  "response_json r = (case r of NotJson m \<Rightarrow> Inl (JSONDecodeError m) | Json v \<Rightarrow> Inr v)"

text \<open>
  What a fetch reads from outside: the endpoint's answer, the server's time at the write,
  and \<^verbatim>\<open>datetime.now().isoformat()\<close>.
\<close>

record fetch_env =
  upstream :: upstream
  server_time :: nat
  client_time :: string

text \<open>\<^verbatim>\<open>data.get("data") and data["data"]["matchedUser"]\<close>: the value of the expression.\<close>

definition matched_user_test :: "pyval \<Rightarrow> py_error + pyval" where
  "matched_user_test data =
     bind_exc (py_get data ''data'') (\<lambda>a.
       if truthy a
       then bind_exc (py_getitem data ''data'') (\<lambda>d. py_getitem d ''matchedUser'')
       else Inr a)"

text \<open>\<^verbatim>\<open>v[k1][k2]...\<close>\<close>

fun subscripts :: "pyval \<Rightarrow> string list \<Rightarrow> py_error + pyval" where
  "subscripts v [] = Inr v"
| "subscripts v (k # ks) = bind_exc (py_getitem v k) (\<lambda>w. subscripts w ks)"

section \<open>The scheduled job\<close>

datatype printed = FetchedRank pyval | FailedToFetch

text \<open>
  \<^verbatim>\<open>fetch_leetcode_rank\<close> has no \<^verbatim>\<open>try\<close>: the body either raises or returns what it
  printed and the store. The only write is the last step that can raise, so an
  exception leaves the store as it was.
\<close>

definition fetch_leetcode_rank_body ::
  "fetch_env \<Rightarrow> firestore \<Rightarrow> py_error + (printed list \<times> firestore)" where
  "fetch_leetcode_rank_body env db =
     bind_exc (requests_post (upstream env)) (\<lambda>response.
     bind_exc (response_json response) (\<lambda>data.
     bind_exc (matched_user_test data) (\<lambda>c.
       if truthy c then
         bind_exc (subscripts data [''data'', ''matchedUser'', ''profile'', ''ranking'']) (\<lambda>rank.
         bind_exc (collection_add db
                     [(''rank'', Value rank), (''timestamp'', SERVER_TIMESTAMP)]
                     (server_time env)) (\<lambda>db'.
           Inr ([FetchedRank rank], db')))
       else Inr ([FailedToFetch], db))))"

definition fetch_leetcode_rank ::
  "fetch_env \<Rightarrow> firestore \<Rightarrow> (py_error + printed list) \<times> firestore" where
  "fetch_leetcode_rank env db =
     (case fetch_leetcode_rank_body env db of
        Inl e \<Rightarrow> (Inl e, db)
      | Inr (out, db') \<Rightarrow> (Inr out, db'))"

section \<open>The HTTP handlers\<close>

text \<open>
  A response is the status and the object given to \<^verbatim>\<open>jsonify\<close>. Calls to the logger
  do not change a response or the store and are left out.
\<close>

record response =
  status :: nat
  body :: pyval

definition jsonify :: "nat \<Rightarrow> pyval \<Rightarrow> response" where
  "jsonify code obj = \<lparr>status = code, body = obj\<rparr>"

definition home :: "response" where
  "home = jsonify 200 (PDict
     [(''message'', PStr ''Welcome to the LeetCode Rank API''),
      (''endpoints'', PDict [(''get_rank'', PStr ''/api/rank'')])])"

subsection \<open>\<^verbatim>\<open>/api/rank\<close>\<close>

fun get_rank_loop :: "document list \<Rightarrow> pyval list \<Rightarrow> py_error + pyval list" where
  "get_rank_loop [] data = Inr data"
| "get_rank_loop (doc # ranks) data =
     bind_exc (py_getitem (to_dict doc) ''rank'') (\<lambda>r.
     bind_exc (py_getitem (to_dict doc) ''timestamp'') (\<lambda>t.
       get_rank_loop ranks (data @ [PDict [(''rank'', r), (''timestamp'', t)]])))"

definition get_rank_try :: "firestore \<Rightarrow> py_error + response" where
  "get_rank_try db =
     bind_exc (stream db (limit 10 \<circ> order_by DESCENDING)) (\<lambda>ranks.
     bind_exc (get_rank_loop ranks []) (\<lambda>data.
       if data = []
       then Inr (jsonify 200 (PDict
              [(''message'', PStr ''No rank data available yet''), (''data'', PList [])]))
       else Inr (jsonify 200 (PDict
              [(''message'', PStr ''Rank data retrieved successfully''), (''data'', PList data)]))))"

definition get_rank :: "firestore \<Rightarrow> response \<times> firestore" where
  "get_rank db =
     (case get_rank_try db of
        Inr resp \<Rightarrow> (resp, db)
      | Inl e \<Rightarrow> (jsonify 500 (PDict
          [(''error'', PStr ''Failed to retrieve rank data''), (''details'', PStr (str_exc e))]), db))"

subsection \<open>\<^verbatim>\<open>/api/fetch-now\<close>\<close>

definition trigger_fetch_try :: "fetch_env \<Rightarrow> firestore \<Rightarrow> py_error + (response \<times> firestore)" where
  "trigger_fetch_try env db =
     bind_exc (requests_post (upstream env)) (\<lambda>response.
     bind_exc (response_json response) (\<lambda>data.
     bind_exc (matched_user_test data) (\<lambda>c.
       if truthy c then
         bind_exc (subscripts data [''data'', ''matchedUser'', ''profile'', ''ranking'']) (\<lambda>rank.
         bind_exc (document_set db
                     [(''rank'', Value rank), (''timestamp'', SERVER_TIMESTAMP),
                      (''fetch_time'', Value (PStr (client_time env)))]
                     (server_time env)) (\<lambda>db'.
           Inr (jsonify 200 (PDict
                  [(''success'', PBool True),
                   (''message'', PStr ''Rank fetched and stored successfully''),
                   (''current_rank'', rank)]), db')))
       else Inr (jsonify 400 (PDict
              [(''success'', PBool False),
               (''message'', PStr ''Failed to fetch LeetCode data''),
               (''response'', data)]), db))))"

definition trigger_fetch :: "fetch_env \<Rightarrow> firestore \<Rightarrow> response \<times> firestore" where
  "trigger_fetch env db =
     (case trigger_fetch_try env db of
        Inr (resp, db') \<Rightarrow> (resp, db')
      | Inl e \<Rightarrow> (jsonify 500 (PDict
          [(''success'', PBool False), (''message'', PStr (str_exc e))]), db))"

subsection \<open>\<^verbatim>\<open>/api/rank/history\<close>\<close>

fun history_loop ::
  "document list \<Rightarrow> pyval list \<Rightarrow> pyval list \<Rightarrow> py_error + (pyval list \<times> pyval list)" where
  "history_loop [] data rank_values = Inr (data, rank_values)"
| "history_loop (doc # ranks) data rank_values =
     bind_exc (py_getitem (to_dict doc) ''rank'') (\<lambda>r.
     bind_exc (py_get (to_dict doc) ''total_solved'') (\<lambda>ts.
     bind_exc (py_getitem (to_dict doc) ''timestamp'') (\<lambda>t.
     bind_exc (py_get (to_dict doc) ''fetch_time'') (\<lambda>ft.
       history_loop ranks
         (data @ [PDict [(''rank'', r), (''total_solved'', ts),
                         (''timestamp'', t), (''fetch_time'', ft)]])
         (rank_values @ [r])))))"

definition analytics :: "pyval list \<Rightarrow> pyval list \<Rightarrow> py_error + pyval" where
  "analytics data rank_values =
     bind_exc (if rank_values \<noteq> [] then py_min rank_values else Inr PNone) (\<lambda>best_rank.
     bind_exc (if rank_values \<noteq> [] then Inr (last rank_values) else Inr PNone) (\<lambda>current_rank.
     bind_exc (if length rank_values > 1 then py_sub (last rank_values) (hd rank_values)
               else Inr (PInt 0)) (\<lambda>rank_change.
     bind_exc (if data \<noteq> [] then py_getitem (hd data) ''timestamp'' else Inr PNone) (\<lambda>first_recorded.
     bind_exc (if data \<noteq> [] then py_getitem (last data) ''timestamp'' else Inr PNone) (\<lambda>last_recorded.
       Inr (PDict
         [(''total_records'', PInt (int (length data))),
          (''best_rank'', best_rank),
          (''current_rank'', current_rank),
          (''rank_change'', rank_change),
          (''first_recorded'', first_recorded),
          (''last_recorded'', last_recorded)]))))))"

definition get_rank_history_try :: "firestore \<Rightarrow> py_error + response" where
  "get_rank_history_try db =
     bind_exc (stream db (order_by ASCENDING)) (\<lambda>ranks.
     bind_exc (history_loop ranks [] []) (\<lambda>(data, rank_values).
     bind_exc (analytics data rank_values) (\<lambda>a.
       Inr (jsonify 200 (PDict
         [(''success'', PBool True), (''data'', PList data), (''analytics'', a)])))))"

definition get_rank_history :: "firestore \<Rightarrow> response \<times> firestore" where
  "get_rank_history db =
     (case get_rank_history_try db of
        Inr resp \<Rightarrow> (resp, db)
      | Inl e \<Rightarrow> (jsonify 500 (PDict
          [(''success'', PBool False), (''message'', PStr (str_exc e))]), db))"

section \<open>The system as a whole\<close>

text \<open>
  Everything that can happen to the running process: one of the four GET routes is
  requested, or the scheduler's timer fires the job.
\<close>

datatype event =
    GetHome
  | GetRank
  | GetFetchNow fetch_env
  | GetRankHistory
  | SchedulerTick fetch_env

datatype outcome = Http response | JobReturned "printed list" | JobRaised py_error

fun step :: "event \<Rightarrow> firestore \<Rightarrow> outcome \<times> firestore" where
  "step GetHome db = (Http home, db)"
| "step GetRank db = (case get_rank db of (r, db') \<Rightarrow> (Http r, db'))"
| "step (GetFetchNow env) db = (case trigger_fetch env db of (r, db') \<Rightarrow> (Http r, db'))"
| "step GetRankHistory db = (case get_rank_history db of (r, db') \<Rightarrow> (Http r, db'))"
| "step (SchedulerTick env) db =
     (case fetch_leetcode_rank env db of
        (Inl e, db') \<Rightarrow> (JobRaised e, db')
      | (Inr out, db') \<Rightarrow> (JobReturned out, db'))"

fun run :: "event list \<Rightarrow> firestore \<Rightarrow> outcome list \<times> firestore" where
  "run [] db = ([], db)"
| "run (ev # evs) db =
     (case step ev db of (out, db') \<Rightarrow>
        (case run evs db' of (outs, db'') \<Rightarrow> (out # outs, db'')))"

section \<open>Vocabulary of the properties\<close>

text \<open>
  The upstream answer names no matched user: the parsed JSON is an object whose
  \<^verbatim>\<open>data\<close> field is absent or falsy, or whose \<^verbatim>\<open>data\<close> is an object with a falsy
  \<^verbatim>\<open>matchedUser\<close> (null, for an unknown username).
\<close>

definition no_matched_user :: "pyval \<Rightarrow> bool" where
  "no_matched_user data =
     (case data of
        PDict obj \<Rightarrow>
          (case map_of obj ''data'' of
             None \<Rightarrow> True
           | Some a \<Rightarrow>
               \<not> truthy a \<or>
               (case a of
                  PDict d \<Rightarrow> (case map_of d ''matchedUser'' of None \<Rightarrow> False | Some m \<Rightarrow> \<not> truthy m)
                | _ \<Rightarrow> False))
      | _ \<Rightarrow> False)"

text \<open>
  A fetch succeeded: \<^verbatim>\<open>/api/fetch-now\<close> answered 200, or the job returned after printing
  the rank it fetched.
\<close>

fun fetch_succeeded :: "event \<Rightarrow> outcome \<Rightarrow> bool" where
  "fetch_succeeded (GetFetchNow env) (Http r) = (status r = 200)"
| "fetch_succeeded (SchedulerTick env) (JobReturned [FetchedRank r]) = True"
| "fetch_succeeded ev out = False"


section \<open>Inputs of the scenarios\<close>

text \<open>
  The upstream answers and store contents that the properties below are run on: an
  answer that carries a ranking, the answer for an unknown username, a connection that
  fails, a body that is not JSON, and stores with three observations at increasing
  timestamps, with none, and with an outage.
\<close>

definition ranking_payload :: "pyval \<Rightarrow> pyval" where
  "ranking_payload r =
     PDict [(''data'', PDict [(''matchedUser'', PDict [(''profile'', PDict [(''ranking'', r)])])])]"

definition null_user_payload :: pyval where
  "null_user_payload = PDict [(''data'', PDict [(''matchedUser'', PNone)])]"

definition answer :: "pyval \<Rightarrow> fetch_env" where
  "answer data =
     \<lparr>upstream = Responded (Json data), server_time = 40,
      client_time = ''2025-01-01T00:00:00''\<rparr>"

definition no_answer :: fetch_env where
  "no_answer =
     \<lparr>upstream = TransportError ''connection refused'', server_time = 40,
      client_time = ''2025-01-01T00:00:00''\<rparr>"

definition garbled_answer :: fetch_env where
  "garbled_answer =
     \<lparr>upstream = Responded (NotJson ''Expecting value''), server_time = 40,
      client_time = ''2025-01-01T00:00:00''\<rparr>"

definition observation :: "int \<Rightarrow> nat \<Rightarrow> document" where
  "observation r t = \<lparr>timestamp = t, content = [(''rank'', PInt r)]\<rparr>"

definition three_observations :: firestore where
  "three_observations =
     \<lparr>documents = [observation 1800 10, observation 1700 20, observation 1600 30],
      outage = None\<rparr>"

definition empty_store :: firestore where
  "empty_store = \<lparr>documents = [], outage = None\<rparr>"

definition unreachable_store :: firestore where
  "unreachable_store = \<lparr>documents = [], outage = Some ''503 unavailable''\<rparr>"

section \<open>Properties\<close>

subsection \<open>Evaluation of the model\<close>

lemma bind_exc_Inl [simp]: "bind_exc (Inl e) f = Inl e"
  by (simp add: bind_exc_def)

lemma bind_exc_Inr [simp]: "bind_exc (Inr v) f = f v"
  by (simp add: bind_exc_def)

lemma bind_exc_eq_Inr:
  "bind_exc m f = Inr y \<longleftrightarrow> (\<exists>v. m = Inr v \<and> f v = Inr y)"
  by (cases m) simp_all

lemma stream_up [simp]: "outage db = None \<Longrightarrow> stream db q = Inr (q (documents db))"
  by (simp add: stream_def)

lemma stream_down [simp]: "outage db = Some m \<Longrightarrow> stream db q = Inl (StoreError m)"
  by (simp add: stream_def)

lemmas scenario_defs =
  ranking_payload_def null_user_payload_def answer_def no_answer_def garbled_answer_def
  observation_def three_observations_def empty_store_def unreachable_store_def

lemmas fetch_defs =
  trigger_fetch_def trigger_fetch_try_def fetch_leetcode_rank_def fetch_leetcode_rank_body_def
  requests_post_def response_json_def matched_user_test_def document_set_def
  collection_add_def new_document_def jsonify_def

lemma to_dict_timestamp [simp]:
  "py_getitem (to_dict d) ''timestamp'' = Inr (PTime (timestamp d))"
  by (simp add: to_dict_def)

lemma to_dict_rank [simp]:
  "py_getitem (to_dict d) ''rank'' =
     (case map_of (content d) ''rank'' of None \<Rightarrow> Inl (KeyError ''rank'') | Some v \<Rightarrow> Inr v)"
  by (simp add: to_dict_def)

lemma to_dict_total_solved [simp]:
  "py_get (to_dict d) ''total_solved'' =
     Inr (case map_of (content d) ''total_solved'' of None \<Rightarrow> PNone | Some v \<Rightarrow> v)"
  by (simp add: to_dict_def split: option.splits)

lemma to_dict_fetch_time [simp]:
  "py_get (to_dict d) ''fetch_time'' =
     Inr (case map_of (content d) ''fetch_time'' of None \<Rightarrow> PNone | Some v \<Rightarrow> v)"
  by (simp add: to_dict_def split: option.splits)

lemma get_rank_store [simp]: "snd (get_rank db) = db"
  by (simp add: get_rank_def split: sum.splits)

lemma get_rank_history_store [simp]: "snd (get_rank_history db) = db"
  by (simp add: get_rank_history_def split: sum.splits)

subsection \<open>The test on the upstream answer\<close>

text \<open>
  The value of \<^verbatim>\<open>data.get("data") and data["data"]["matchedUser"]\<close> is falsy exactly when
  the answer names no matched user, and an answer from which the ranking can be read
  passes the test.
\<close>

lemma test_falsy_iff:
  "(\<exists>c. matched_user_test data = Inr c \<and> \<not> truthy c) \<longleftrightarrow> no_matched_user data"
proof (cases data)
  case (PDict obj)
  show ?thesis
  proof (cases "map_of obj ''data''")
    case None
    with PDict show ?thesis by (simp add: matched_user_test_def no_matched_user_def)
  next
    case (Some a)
    show ?thesis
    proof (cases "truthy a")
      case False
      with PDict Some show ?thesis by (simp add: matched_user_test_def no_matched_user_def)
    next
      case True
      with PDict Some show ?thesis
        by (cases a) (auto simp: matched_user_test_def no_matched_user_def split: option.splits)
    qed
  qed
qed (simp_all add: matched_user_test_def no_matched_user_def)

lemma subscripts_ranking_test:
  assumes "subscripts data [''data'', ''matchedUser'', ''profile'', ''ranking''] = Inr r"
  shows "\<exists>c. matched_user_test data = Inr c \<and> truthy c"
proof -
  from assms obtain a where a: "py_getitem data ''data'' = Inr a"
    and rest: "subscripts a [''matchedUser'', ''profile'', ''ranking''] = Inr r"
    by (auto simp: bind_exc_eq_Inr)
  from rest obtain m where m: "py_getitem a ''matchedUser'' = Inr m"
    and rest2: "subscripts m [''profile'', ''ranking''] = Inr r"
    by (auto simp: bind_exc_eq_Inr)
  from rest2 obtain p where p: "py_getitem m ''profile'' = Inr p"
    by (auto simp: bind_exc_eq_Inr)
  from a obtain obj where obj: "data = PDict obj" "map_of obj ''data'' = Some a"
    by (cases data) (auto split: option.splits)
  from m obtain d where d: "a = PDict d" "map_of d ''matchedUser'' = Some m"
    by (cases a) (auto split: option.splits)
  from p obtain kvs where kvs: "m = PDict kvs" "map_of kvs ''profile'' = Some p"
    by (cases m) (auto split: option.splits)
  from d have "truthy a" by auto
  moreover from kvs have "truthy m" by auto
  ultimately show ?thesis using obj d
    by (simp add: matched_user_test_def)
qed

lemma test_truthy_not_falsy:
  "matched_user_test data = Inr c \<Longrightarrow> truthy c \<Longrightarrow> \<not> no_matched_user data"
  using test_falsy_iff [of data] by auto

lemma ranking_not_no_user:
  "subscripts data [''data'', ''matchedUser'', ''profile'', ''ranking''] = Inr r \<Longrightarrow>
   \<not> no_matched_user data"
  using subscripts_ranking_test [of data r] test_truthy_not_falsy [of data] by blast

subsection \<open>Every way through a fetch\<close>

lemma trigger_fetch_no_user:
  assumes "upstream env = Responded (Json data)" and "no_matched_user data"
  shows "trigger_fetch env db =
     (jsonify 400 (PDict [(''success'', PBool False),
        (''message'', PStr ''Failed to fetch LeetCode data''), (''response'', data)]), db)"
proof -
  from assms(2) obtain c where "matched_user_test data = Inr c" "\<not> truthy c"
    using test_falsy_iff by blast
  with assms(1) show ?thesis
    by (simp add: trigger_fetch_def trigger_fetch_try_def requests_post_def response_json_def)
qed

lemma trigger_fetch_ranking:
  assumes "upstream env = Responded (Json data)"
    and "subscripts data [''data'', ''matchedUser'', ''profile'', ''ranking''] = Inr r"
    and "outage db = None"
  shows "trigger_fetch env db =
     (jsonify 200 (PDict [(''success'', PBool True),
        (''message'', PStr ''Rank fetched and stored successfully''), (''current_rank'', r)]),
      db\<lparr>documents := documents db @
        [\<lparr>timestamp = server_time env,
          content = [(''rank'', r), (''fetch_time'', PStr (client_time env))]\<rparr>]\<rparr>)"
proof -
  from assms(2) obtain c where "matched_user_test data = Inr c" "truthy c"
    using subscripts_ranking_test by blast
  with assms show ?thesis
    by (simp add: trigger_fetch_def trigger_fetch_try_def requests_post_def response_json_def
        document_set_def new_document_def)
qed

lemma trigger_fetch_raises:
  assumes "trigger_fetch_try env db = Inl e"
  shows "trigger_fetch env db =
     (jsonify 500 (PDict [(''success'', PBool False), (''message'', PStr (str_exc e))]), db)"
  using assms by (simp add: trigger_fetch_def)

lemma trigger_fetch_try_cases:
  "(\<exists>e. trigger_fetch_try env db = Inl e \<and>
        \<not> (\<exists>data. upstream env = Responded (Json data) \<and> no_matched_user data) \<and>
        \<not> (\<exists>data r. upstream env = Responded (Json data) \<and> outage db = None \<and>
             subscripts data [''data'', ''matchedUser'', ''profile'', ''ranking''] = Inr r)) \<or>
   (\<exists>data. upstream env = Responded (Json data) \<and> no_matched_user data) \<or>
   (\<exists>data r. upstream env = Responded (Json data) \<and> outage db = None \<and>
        subscripts data [''data'', ''matchedUser'', ''profile'', ''ranking''] = Inr r)"
proof (cases "upstream env")
  case (TransportError m)
  then show ?thesis
    by (simp add: trigger_fetch_try_def requests_post_def)
next
  case (Responded resp)
  show ?thesis
  proof (cases resp)
    case (NotJson m)
    with Responded show ?thesis
      by (simp add: trigger_fetch_try_def requests_post_def response_json_def)
  next
    case (Json data)
    show ?thesis
    proof (cases "matched_user_test data")
      case (Inl e)
      then have "\<not> no_matched_user data"
        using test_falsy_iff [of data] by auto
      moreover have "\<And>r. subscripts data [''data'', ''matchedUser'', ''profile'', ''ranking''] \<noteq> Inr r"
        using Inl subscripts_ranking_test [of data] by auto
      ultimately show ?thesis using Responded Json Inl
        by (simp add: trigger_fetch_try_def requests_post_def response_json_def)
    next
      case (Inr c)
      show ?thesis
      proof (cases "truthy c")
        case False
        with Inr have "no_matched_user data" using test_falsy_iff by blast
        with Responded Json show ?thesis by simp
      next
        case True
        with Inr have nm: "\<not> no_matched_user data" by (rule test_truthy_not_falsy)
        show ?thesis
        proof (cases "subscripts data [''data'', ''matchedUser'', ''profile'', ''ranking'']")
          case (Inl e)
          with Responded Json Inr True nm show ?thesis
            by (simp add: trigger_fetch_try_def requests_post_def response_json_def)
        next
          case r: (Inr r)
          show ?thesis
          proof (cases "outage db")
            case None
            with Responded Json r show ?thesis by simp
          next
            case (Some m)
            with Responded Json Inr True nm r show ?thesis
              by (simp add: trigger_fetch_try_def requests_post_def response_json_def
                  document_set_def)
          qed
        qed
      qed
    qed
  qed
qed

lemma trigger_fetch_cases:
  "(\<exists>e. trigger_fetch_try env db = Inl e \<and>
        \<not> (\<exists>data. upstream env = Responded (Json data) \<and> no_matched_user data) \<and>
        trigger_fetch env db =
          (jsonify 500 (PDict [(''success'', PBool False), (''message'', PStr (str_exc e))]), db)) \<or>
   (\<exists>data. upstream env = Responded (Json data) \<and> no_matched_user data \<and>
        trigger_fetch env db =
          (jsonify 400 (PDict [(''success'', PBool False),
             (''message'', PStr ''Failed to fetch LeetCode data''), (''response'', data)]), db)) \<or>
   (\<exists>data r. upstream env = Responded (Json data) \<and> outage db = None \<and>
        subscripts data [''data'', ''matchedUser'', ''profile'', ''ranking''] = Inr r \<and>
        \<not> no_matched_user data \<and>
        trigger_fetch env db =
          (jsonify 200 (PDict [(''success'', PBool True),
             (''message'', PStr ''Rank fetched and stored successfully''), (''current_rank'', r)]),
           db\<lparr>documents := documents db @
             [\<lparr>timestamp = server_time env,
               content = [(''rank'', r), (''fetch_time'', PStr (client_time env))]\<rparr>]\<rparr>))"
  using trigger_fetch_try_cases [of env db] trigger_fetch_raises [of env db]
    trigger_fetch_no_user [of env _ db] trigger_fetch_ranking [of env _ _ db]
    ranking_not_no_user
  by metis

lemma job_no_user:
  assumes "upstream env = Responded (Json data)" and "no_matched_user data"
  shows "fetch_leetcode_rank env db = (Inr [FailedToFetch], db)"
proof -
  from assms(2) obtain c where "matched_user_test data = Inr c" "\<not> truthy c"
    using test_falsy_iff by blast
  with assms(1) show ?thesis
    by (simp add: fetch_leetcode_rank_def fetch_leetcode_rank_body_def requests_post_def
        response_json_def)
qed

lemma job_ranking:
  assumes "upstream env = Responded (Json data)"
    and "subscripts data [''data'', ''matchedUser'', ''profile'', ''ranking''] = Inr r"
    and "outage db = None"
  shows "fetch_leetcode_rank env db =
     (Inr [FetchedRank r],
      db\<lparr>documents := documents db @
        [\<lparr>timestamp = server_time env, content = [(''rank'', r)]\<rparr>]\<rparr>)"
proof -
  from assms(2) obtain c where "matched_user_test data = Inr c" "truthy c"
    using subscripts_ranking_test by blast
  with assms show ?thesis
    by (simp add: fetch_leetcode_rank_def fetch_leetcode_rank_body_def requests_post_def
        response_json_def collection_add_def new_document_def)
qed

lemma job_raises:
  "fetch_leetcode_rank_body env db = Inl e \<Longrightarrow> fetch_leetcode_rank env db = (Inl e, db)"
  by (simp add: fetch_leetcode_rank_def)

lemma job_body_cases:
  "(\<exists>e. fetch_leetcode_rank_body env db = Inl e) \<or>
   (\<exists>data. upstream env = Responded (Json data) \<and> no_matched_user data) \<or>
   (\<exists>data r. upstream env = Responded (Json data) \<and> outage db = None \<and>
        subscripts data [''data'', ''matchedUser'', ''profile'', ''ranking''] = Inr r)"
proof (cases "upstream env")
  case (TransportError m)
  then show ?thesis
    by (simp add: fetch_leetcode_rank_body_def requests_post_def)
next
  case (Responded resp)
  show ?thesis
  proof (cases resp)
    case (NotJson m)
    with Responded show ?thesis
      by (simp add: fetch_leetcode_rank_body_def requests_post_def response_json_def)
  next
    case (Json data)
    show ?thesis
    proof (cases "matched_user_test data")
      case (Inl e)
      with Responded Json show ?thesis
        by (simp add: fetch_leetcode_rank_body_def requests_post_def response_json_def)
    next
      case (Inr c)
      show ?thesis
      proof (cases "truthy c")
        case False
        with Inr have "no_matched_user data" using test_falsy_iff by blast
        with Responded Json show ?thesis by simp
      next
        case True
        show ?thesis
        proof (cases "subscripts data [''data'', ''matchedUser'', ''profile'', ''ranking'']")
          case (Inl e)
          with Responded Json Inr True show ?thesis
            by (simp add: fetch_leetcode_rank_body_def requests_post_def response_json_def)
        next
          case r: (Inr r)
          show ?thesis
          proof (cases "outage db")
            case None
            with Responded Json r show ?thesis by simp
          next
            case (Some m)
            with Responded Json Inr True r show ?thesis
              by (simp add: fetch_leetcode_rank_body_def requests_post_def response_json_def
                  collection_add_def)
          qed
        qed
      qed
    qed
  qed
qed

lemma job_cases:
  "(\<exists>e. fetch_leetcode_rank env db = (Inl e, db)) \<or>
   (\<exists>data. upstream env = Responded (Json data) \<and> no_matched_user data \<and>
        fetch_leetcode_rank env db = (Inr [FailedToFetch], db)) \<or>
   (\<exists>data r. upstream env = Responded (Json data) \<and> outage db = None \<and>
        subscripts data [''data'', ''matchedUser'', ''profile'', ''ranking''] = Inr r \<and>
        fetch_leetcode_rank env db =
          (Inr [FetchedRank r],
           db\<lparr>documents := documents db @
             [\<lparr>timestamp = server_time env, content = [(''rank'', r)]\<rparr>]\<rparr>))"
  using job_body_cases [of env db] job_raises [of env db]
    job_no_user [of env _ db] job_ranking [of env _ _ db]
  by metis

lemma step_cases:
  "(\<not> fetch_succeeded ev (fst (step ev db)) \<and> snd (step ev db) = db) \<or>
   (fetch_succeeded ev (fst (step ev db)) \<and>
    (\<exists>env r. ev = GetFetchNow env \<and>
       snd (step ev db) = db\<lparr>documents := documents db @
         [\<lparr>timestamp = server_time env,
           content = [(''rank'', r), (''fetch_time'', PStr (client_time env))]\<rparr>]\<rparr>)) \<or>
   (fetch_succeeded ev (fst (step ev db)) \<and>
    (\<exists>env r. ev = SchedulerTick env \<and>
       snd (step ev db) = db\<lparr>documents := documents db @
         [\<lparr>timestamp = server_time env, content = [(''rank'', r)]\<rparr>]\<rparr>))"
proof (cases ev)
  case GetHome
  then show ?thesis by simp
next
  case GetRank
  then show ?thesis by (simp add: case_prod_unfold)
next
  case (GetFetchNow env)
  then show ?thesis
    using trigger_fetch_cases [of env db]
    by (auto simp: jsonify_def)
next
  case GetRankHistory
  then show ?thesis by (simp add: case_prod_unfold)
next
  case (SchedulerTick env)
  then show ?thesis
    using job_cases [of env db]
    by auto
qed

lemma step_prefix: "prefix (documents db) (documents (snd (step ev db)))"
  using step_cases [of ev db] by auto

lemma run_prefix: "prefix (documents db) (documents (snd (run evs db)))"
proof (induction evs arbitrary: db)
  case Nil
  show ?case by simp
next
  case (Cons ev evs)
  have "prefix (documents db) (documents (snd (step ev db)))"
    by (rule step_prefix)
  also have "prefix (documents (snd (step ev db))) (documents (snd (run evs (snd (step ev db)))))"
    by (rule Cons.IH)
  finally show ?case
    by (simp add: case_prod_unfold)
qed

subsection \<open>The loops of the read routes\<close>








lemma min_from_ints:
  "min_from (PInt m) (map PInt ns) = Inr (PInt (fold min ns m))"
  by (induction ns arbitrary: m) (simp_all add: min_def)

lemma py_min_ints:
  "ns \<noteq> [] \<Longrightarrow> py_min (map PInt ns) = Inr (PInt (Min (set ns)))"
proof (cases ns)
  case Nil
  then show "ns \<noteq> [] \<Longrightarrow> ?thesis" by simp
next
  case (Cons n rest)
  have "Min (set (n # rest)) = fold min rest n"
    by (rule Min.set_eq_fold)
  with Cons show ?thesis
    by (simp add: min_from_ints)
qed

lemma history_loop_ints:
  "map (\<lambda>d. map_of (content d) ''rank'') ds = map (\<lambda>n. Some (PInt n)) ns \<Longrightarrow>
     \<exists>rows. length rows = length ds \<and>
       (\<forall>row\<in>set rows. \<exists>t. py_getitem row ''timestamp'' = Inr t) \<and>
       history_loop ds data rank_values = Inr (data @ rows, rank_values @ map PInt ns)"
proof (induction ds arbitrary: ns data rank_values)
  case Nil
  then show ?case by simp
next
  case (Cons d ds)
  from Cons.prems obtain n ns' where ns: "ns = n # ns'"
    and n: "map_of (content d) ''rank'' = Some (PInt n)"
    and rest: "map (\<lambda>d. map_of (content d) ''rank'') ds = map (\<lambda>n. Some (PInt n)) ns'"
    by (cases ns) auto
  let ?row = "PDict [(''rank'', PInt n),
      (''total_solved'', case map_of (content d) ''total_solved'' of None \<Rightarrow> PNone | Some v \<Rightarrow> v),
      (''timestamp'', PTime (timestamp d)),
      (''fetch_time'', case map_of (content d) ''fetch_time'' of None \<Rightarrow> PNone | Some v \<Rightarrow> v)]"
  from Cons.IH [OF rest, of "data @ [?row]" "rank_values @ [PInt n]"]
  obtain rows where rows: "length rows = length ds"
      "\<forall>row\<in>set rows. \<exists>t. py_getitem row ''timestamp'' = Inr t"
      "history_loop ds (data @ [?row]) (rank_values @ [PInt n]) =
         Inr ((data @ [?row]) @ rows, (rank_values @ [PInt n]) @ map PInt ns')"
    by blast
  have "length (?row # rows) = length (d # ds)"
    using rows by simp
  moreover have "\<forall>row\<in>set (?row # rows). \<exists>t. py_getitem row ''timestamp'' = Inr t"
    using rows by simp
  moreover have "history_loop (d # ds) data rank_values =
      Inr (data @ (?row # rows), rank_values @ map PInt ns)"
    using rows n ns by simp
  ultimately show ?case by blast
qed

lemma analytics_ints:
  assumes "\<forall>row\<in>set rows. \<exists>t. py_getitem row ''timestamp'' = Inr t"
  shows "\<exists>f l. analytics rows (map PInt ns) = Inr (PDict
     [(''total_records'', PInt (int (length rows))),
      (''best_rank'', if ns = [] then PNone else PInt (Min (set ns))),
      (''current_rank'', if ns = [] then PNone else PInt (last ns)),
      (''rank_change'', PInt (if 2 \<le> length ns then last ns - hd ns else 0)),
      (''first_recorded'', f),
      (''last_recorded'', l)])"
proof -
  have first: "\<exists>f. (if rows \<noteq> [] then py_getitem (hd rows) ''timestamp'' else Inr PNone) = Inr f"
    using assms by (cases rows) auto
  have last: "\<exists>l. (if rows \<noteq> [] then py_getitem (last rows) ''timestamp'' else Inr PNone) = Inr l"
    using assms by (cases rows rule: rev_cases) auto
  from first obtain f
    where f: "(if rows \<noteq> [] then py_getitem (hd rows) ''timestamp'' else Inr PNone) = Inr f"
    by blast
  from last obtain l
    where l: "(if rows \<noteq> [] then py_getitem (last rows) ''timestamp'' else Inr PNone) = Inr l"
    by blast
  have best: "(if map PInt ns \<noteq> [] then py_min (map PInt ns) else Inr PNone) =
      Inr (if ns = [] then PNone else PInt (Min (set ns)))"
    by (simp add: py_min_ints)
  have cur: "(if map PInt ns \<noteq> [] then Inr (last (map PInt ns)) else Inr PNone) =
      Inr (if ns = [] then PNone else PInt (last ns))"
    by (simp add: last_map)
  have change: "(if length (map PInt ns) > 1 then py_sub (last (map PInt ns)) (hd (map PInt ns))
      else Inr (PInt 0)) = Inr (PInt (if 2 \<le> length ns then last ns - hd ns else 0))"
  proof (cases "2 \<le> length ns")
    case True
    then have "ns \<noteq> []" by auto
    with True show ?thesis by (simp add: last_map hd_map)
  next
    case False
    then show ?thesis by simp
  qed
  show ?thesis
    unfolding analytics_def best cur change f l by simp
qed

subsection \<open>Analytics of the history route\<close>

text \<open>
  C1. Let the store answer, and let the observations, read in ascending order of
  timestamp, carry the integer ranks \<open>ns\<close>. Then \<^verbatim>\<open>/api/rank/history\<close> answers 200, and in
  its analytics \<^verbatim>\<open>total_records\<close> is the number of observations, \<^verbatim>\<open>best_rank\<close> is the
  minimum of \<open>ns\<close> (None when there is no observation), \<^verbatim>\<open>current_rank\<close> is the rank of
  the last, newest observation (None when there is none), and \<^verbatim>\<open>rank_change\<close> is the
  last rank minus the first when there are at least two observations, and 0 otherwise.
\<close>

theorem history_analytics:
  "outage db = None \<and>
   map (\<lambda>d. map_of (content d) ''rank'') (sort_key timestamp (documents db)) =
     map (\<lambda>n. Some (PInt n)) ns \<longrightarrow>
     status (fst (get_rank_history db)) = 200 \<and>
     subscripts (body (fst (get_rank_history db))) [''analytics'', ''total_records''] =
       Inr (PInt (int (length (documents db)))) \<and>
     subscripts (body (fst (get_rank_history db))) [''analytics'', ''best_rank''] =
       Inr (if ns = [] then PNone else PInt (Min (set ns))) \<and>
     subscripts (body (fst (get_rank_history db))) [''analytics'', ''current_rank''] =
       Inr (if ns = [] then PNone else PInt (last ns)) \<and>
     subscripts (body (fst (get_rank_history db))) [''analytics'', ''rank_change''] =
       Inr (PInt (if 2 \<le> length ns then last ns - hd ns else 0))"
proof
  assume a: "outage db = None \<and>
   map (\<lambda>d. map_of (content d) ''rank'') (sort_key timestamp (documents db)) =
     map (\<lambda>n. Some (PInt n)) ns"
  then have up: "outage db = None" and
    ranks: "map (\<lambda>d. map_of (content d) ''rank'') (sort_key timestamp (documents db)) =
     map (\<lambda>n. Some (PInt n)) ns"
    by simp_all
  from history_loop_ints [OF ranks, of "[]" "[]"] obtain rows
    where len: "length rows = length (documents db)"
      and ts: "\<forall>row\<in>set rows. \<exists>t. py_getitem row ''timestamp'' = Inr t"
      and loop: "history_loop (sort_key timestamp (documents db)) [] [] = Inr (rows, map PInt ns)"
    by auto
  from analytics_ints [OF ts, of ns] obtain f l where
    an: "analytics rows (map PInt ns) = Inr (PDict
     [(''total_records'', PInt (int (length rows))),
      (''best_rank'', if ns = [] then PNone else PInt (Min (set ns))),
      (''current_rank'', if ns = [] then PNone else PInt (last ns)),
      (''rank_change'', PInt (if 2 \<le> length ns then last ns - hd ns else 0)),
      (''first_recorded'', f),
      (''last_recorded'', l)])"
    by blast
  have "fst (get_rank_history db) = jsonify 200 (PDict
     [(''success'', PBool True), (''data'', PList rows), (''analytics'', PDict
     [(''total_records'', PInt (int (length rows))),
      (''best_rank'', if ns = [] then PNone else PInt (Min (set ns))),
      (''current_rank'', if ns = [] then PNone else PInt (last ns)),
      (''rank_change'', PInt (if 2 \<le> length ns then last ns - hd ns else 0)),
      (''first_recorded'', f),
      (''last_recorded'', l)])])"
    using up loop an by (simp add: get_rank_history_def get_rank_history_try_def)
  then show "status (fst (get_rank_history db)) = 200 \<and>
     subscripts (body (fst (get_rank_history db))) [''analytics'', ''total_records''] =
       Inr (PInt (int (length (documents db)))) \<and>
     subscripts (body (fst (get_rank_history db))) [''analytics'', ''best_rank''] =
       Inr (if ns = [] then PNone else PInt (Min (set ns))) \<and>
     subscripts (body (fst (get_rank_history db))) [''analytics'', ''current_rank''] =
       Inr (if ns = [] then PNone else PInt (last ns)) \<and>
     subscripts (body (fst (get_rank_history db))) [''analytics'', ''rank_change''] =
       Inr (PInt (if 2 \<le> length ns then last ns - hd ns else 0))"
    using len by (simp add: jsonify_def)
qed

theorem history_analytics_witness:
  "outage three_observations = None \<and>
   map (\<lambda>d. map_of (content d) ''rank'') (sort_key timestamp (documents three_observations)) =
     map (\<lambda>n. Some (PInt n)) [1800, 1700, 1600] \<and>
   status (fst (get_rank_history three_observations)) = 200 \<and>
   subscripts (body (fst (get_rank_history three_observations))) [''analytics'', ''total_records''] =
     Inr (PInt 3) \<and>
   subscripts (body (fst (get_rank_history three_observations))) [''analytics'', ''best_rank''] =
     Inr (PInt 1600) \<and>
   subscripts (body (fst (get_rank_history three_observations))) [''analytics'', ''current_rank''] =
     Inr (PInt 1600) \<and>
   subscripts (body (fst (get_rank_history three_observations))) [''analytics'', ''rank_change''] =
     Inr (PInt (- 200))"
proof -
  have h: "outage three_observations = None \<and>
   map (\<lambda>d. map_of (content d) ''rank'') (sort_key timestamp (documents three_observations)) =
     map (\<lambda>n. Some (PInt n)) [1800, 1700, 1600]"
    by (simp add: scenario_defs)
  have n: "length (documents three_observations) = 3"
    by (simp add: scenario_defs)
  from history_analytics [where db = three_observations and ns = "[1800, 1700, 1600]", THEN mp, OF h]
  show ?thesis using h n by simp
qed

subsection \<open>A successful fetch appends its rank\<close>



subsection \<open>The latest observations\<close>



subsection \<open>The three answers of the manual fetch\<close>



subsection \<open>Failures of the scheduled job\<close>

text \<open>
  The scheduled job has no handler for exceptions: when the connection to the endpoint
  fails, \<^verbatim>\<open>requests.post\<close> raises and the exception leaves the job.
\<close>

theorem scheduled_job_raises_counterexample:
  "fst (fetch_leetcode_rank no_answer empty_store) = Inl (RequestException ''connection refused'')"
  by (simp add: fetch_defs scenario_defs)

text \<open>
  C5, amended. When the upstream answer names no matched user, the scheduled job
  prints its failure message and returns normally, and the store is unchanged. A
  transport error of the request and a body that is not JSON are not caught in the job:
  the exception of \<^verbatim>\<open>requests.post\<close> or of \<^verbatim>\<open>response.json()\<close> leaves the job function, to
  the scheduler that called it, and the store is unchanged as well.
\<close>

theorem scheduled_job_failures:
  "(upstream env = Responded (Json data) \<and> no_matched_user data \<longrightarrow>
      fetch_leetcode_rank env db = (Inr [FailedToFetch], db)) \<and>
   (upstream env = TransportError m \<longrightarrow>
      fetch_leetcode_rank env db = (Inl (RequestException m), db)) \<and>
   (upstream env = Responded (NotJson m) \<longrightarrow>
      fetch_leetcode_rank env db = (Inl (JSONDecodeError m), db))"
  by (simp add: job_no_user)
     (simp add: fetch_leetcode_rank_def fetch_leetcode_rank_body_def requests_post_def
        response_json_def)

theorem scheduled_job_failures_witness:
  "upstream (answer null_user_payload) = Responded (Json null_user_payload) \<and>
   no_matched_user null_user_payload \<and>
   fetch_leetcode_rank (answer null_user_payload) three_observations =
     (Inr [FailedToFetch], three_observations) \<and>
   upstream no_answer = TransportError ''connection refused'' \<and>
   fetch_leetcode_rank no_answer three_observations =
     (Inl (RequestException ''connection refused''), three_observations) \<and>
   upstream garbled_answer = Responded (NotJson ''Expecting value'') \<and>
   fetch_leetcode_rank garbled_answer three_observations =
     (Inl (JSONDecodeError ''Expecting value''), three_observations)"
proof -
  have a1: "upstream (answer null_user_payload) = Responded (Json null_user_payload) \<and>
      no_matched_user null_user_payload"
    by (simp add: scenario_defs no_matched_user_def)
  have a2: "upstream no_answer = TransportError ''connection refused''"
    by (simp add: scenario_defs)
  have a3: "upstream garbled_answer = Responded (NotJson ''Expecting value'')"
    by (simp add: scenario_defs)
  note T1 = scheduled_job_failures [where env = "answer null_user_payload"
      and data = null_user_payload and db = three_observations]
  note T2 = scheduled_job_failures [where env = no_answer and m = "''connection refused''"
      and db = three_observations]
  note T3 = scheduled_job_failures [where env = garbled_answer and m = "''Expecting value''"
      and db = three_observations]
  from T1 T2 T3 a1 a2 a3 show ?thesis by blast
qed

subsection \<open>The store only grows, and only by successful fetches\<close>

text \<open>
  C6. For every event of the system: when it is a fetch that succeeds, the store
  afterwards is the store before with one document appended; in every other case, among
  them the 400 and 500 answers of \<^verbatim>\<open>/api/fetch-now\<close> and a job that fails or raises, the
  store is unchanged. Over any sequence of events the documents present at the start
  remain, unchanged and in place, a prefix of the documents at the end.
\<close>

theorem store_changes_only_by_successful_fetch:
  "(fetch_succeeded ev (fst (step ev db)) \<longrightarrow>
      (\<exists>d. snd (step ev db) = db\<lparr>documents := documents db @ [d]\<rparr>)) \<and>
   (\<not> fetch_succeeded ev (fst (step ev db)) \<longrightarrow> snd (step ev db) = db) \<and>
   prefix (documents db) (documents (snd (run evs db)))"
  using step_cases [of ev db] run_prefix [of db evs] by auto

theorem store_changes_only_by_successful_fetch_witness:
  "fetch_succeeded (GetFetchNow (answer (ranking_payload (PInt 1500))))
     (fst (step (GetFetchNow (answer (ranking_payload (PInt 1500)))) three_observations)) \<and>
   (\<exists>d. snd (step (GetFetchNow (answer (ranking_payload (PInt 1500)))) three_observations) =
      three_observations\<lparr>documents := documents three_observations @ [d]\<rparr>) \<and>
   \<not> fetch_succeeded (GetFetchNow (answer null_user_payload))
     (fst (step (GetFetchNow (answer null_user_payload)) three_observations)) \<and>
   snd (step (GetFetchNow (answer null_user_payload)) three_observations) = three_observations \<and>
   \<not> fetch_succeeded (SchedulerTick no_answer)
     (fst (step (SchedulerTick no_answer) three_observations)) \<and>
   snd (step (SchedulerTick no_answer) three_observations) = three_observations \<and>
   prefix (documents three_observations)
     (documents (snd (run [GetFetchNow (answer null_user_payload), SchedulerTick no_answer,
        GetFetchNow (answer (ranking_payload (PInt 1500))), GetRank] three_observations)))"
proof -
  let ?ok = "GetFetchNow (answer (ranking_payload (PInt 1500)))"
  let ?bad = "GetFetchNow (answer null_user_payload)"
  let ?down = "SchedulerTick no_answer"
  have a1: "fetch_succeeded ?ok (fst (step ?ok three_observations))"
    by (simp add: fetch_defs scenario_defs)
  have a2: "\<not> fetch_succeeded ?bad (fst (step ?bad three_observations))"
    by (simp add: fetch_defs scenario_defs)
  have a3: "\<not> fetch_succeeded ?down (fst (step ?down three_observations))"
    by (simp add: fetch_defs scenario_defs)
  note T1 = store_changes_only_by_successful_fetch [where ev = ?ok and db = three_observations
      and evs = "[?bad, ?down, ?ok, GetRank]"]
  note T2 = store_changes_only_by_successful_fetch [where ev = ?bad and db = three_observations
      and evs = "[]"]
  note T3 = store_changes_only_by_successful_fetch [where ev = ?down and db = three_observations
      and evs = "[]"]
  from T1 T2 T3 a1 a2 a3 show ?thesis by blast
qed

subsection \<open>The empty store and the unreachable store\<close>

text \<open>
  C7. On a store without documents that answers, \<^verbatim>\<open>/api/rank\<close> answers 200 with the
  empty list as \<^verbatim>\<open>data\<close>, and \<^verbatim>\<open>/api/rank/history\<close> answers 200 with \<^verbatim>\<open>best_rank\<close> None and
  \<^verbatim>\<open>rank_change\<close> 0 in its analytics. When the read of the store fails, both routes
  answer 500 with the message of the failure.
\<close>

theorem empty_store_is_200_outage_is_500:
  "(documents db = [] \<and> outage db = None \<longrightarrow>
      fst (get_rank db) =
        \<lparr>status = 200, body = PDict
           [(''message'', PStr ''No rank data available yet''), (''data'', PList [])]\<rparr> \<and>
      status (fst (get_rank_history db)) = 200 \<and>
      subscripts (body (fst (get_rank_history db))) [''data''] = Inr (PList []) \<and>
      subscripts (body (fst (get_rank_history db))) [''analytics'', ''best_rank''] = Inr PNone \<and>
      subscripts (body (fst (get_rank_history db))) [''analytics'', ''rank_change''] = Inr (PInt 0)) \<and>
   (outage db = Some m \<longrightarrow>
      fst (get_rank db) =
        \<lparr>status = 500, body = PDict
           [(''error'', PStr ''Failed to retrieve rank data''), (''details'', PStr m)]\<rparr> \<and>
      fst (get_rank_history db) =
        \<lparr>status = 500, body = PDict [(''success'', PBool False), (''message'', PStr m)]\<rparr>)"
  by (simp add: get_rank_def get_rank_try_def get_rank_history_def get_rank_history_try_def
      limit_def analytics_def jsonify_def)

theorem empty_store_is_200_outage_is_500_witness:
  "documents empty_store = [] \<and> outage empty_store = None \<and>
   outage unreachable_store = Some ''503 unavailable'' \<and>
   status (fst (get_rank empty_store)) = 200 \<and>
   subscripts (body (fst (get_rank empty_store))) [''data''] = Inr (PList []) \<and>
   status (fst (get_rank_history empty_store)) = 200 \<and>
   subscripts (body (fst (get_rank_history empty_store))) [''analytics'', ''best_rank''] = Inr PNone \<and>
   subscripts (body (fst (get_rank_history empty_store))) [''analytics'', ''rank_change''] =
     Inr (PInt 0) \<and>
   status (fst (get_rank unreachable_store)) = 500 \<and>
   status (fst (get_rank_history unreachable_store)) = 500"
proof -
  have h1: "documents empty_store = [] \<and> outage empty_store = None"
    by (simp add: empty_store_def)
  have h2: "outage unreachable_store = Some ''503 unavailable''"
    by (simp add: unreachable_store_def)
  note empty = empty_store_is_200_outage_is_500
    [where db = empty_store and m = "''503 unavailable''", THEN conjunct1, THEN mp, OF h1]
  note down = empty_store_is_200_outage_is_500
    [where db = unreachable_store and m = "''503 unavailable''", THEN conjunct2, THEN mp, OF h2]
  from empty down h1 h2 show ?thesis by simp
qed

subsection \<open>The fields that are written\<close>



subsection \<open>Reads can be repeated\<close>

text \<open>
  C9. In any sequence of requests to \<^verbatim>\<open>/api/rank\<close> and \<^verbatim>\<open>/api/rank/history\<close>, every
  response is the response that the same route gives on the store at the start, and the
  store at the end is the store at the start: repeated reads without a write in between
  return identical data.
\<close>

theorem repeated_reads_identical:
  "set evs \<subseteq> {GetRank, GetRankHistory} \<Longrightarrow>
     run evs db = (map (\<lambda>ev. fst (step ev db)) evs, db)"
proof (induction evs)
  case Nil
  show ?case by simp
next
  case (Cons ev evs)
  then have "ev = GetRank \<or> ev = GetRankHistory" by simp
  then have "snd (step ev db) = db"
    by (auto simp: case_prod_unfold)
  with Cons show ?case
    by (simp add: case_prod_unfold)
qed

theorem repeated_reads_identical_witness:
  "set [GetRank, GetRankHistory, GetRank, GetRankHistory] \<subseteq> {GetRank, GetRankHistory} \<and>
   run [GetRank, GetRankHistory, GetRank, GetRankHistory] three_observations =
     ([fst (step GetRank three_observations), fst (step GetRankHistory three_observations),
       fst (step GetRank three_observations), fst (step GetRankHistory three_observations)],
      three_observations)"
proof -
  have a: "set [GetRank, GetRankHistory, GetRank, GetRankHistory] \<subseteq> {GetRank, GetRankHistory}"
    by simp
  from repeated_reads_identical [OF a, where db = three_observations] a
  show ?thesis by simp
qed

subsection \<open>When the manual fetch answers 400\<close>

text \<open>
  C10. \<^verbatim>\<open>/api/fetch-now\<close> answers 400 exactly when the upstream answer is a JSON object
  whose \<^verbatim>\<open>data\<close> is absent or falsy, or whose \<^verbatim>\<open>data\<close> holds a falsy \<^verbatim>\<open>matchedUser\<close>. A
  non-empty \<^verbatim>\<open>matchedUser\<close> object without the key \<^verbatim>\<open>profile\<close>, or whose \<^verbatim>\<open>profile\<close> object
  has no key \<^verbatim>\<open>ranking\<close>, makes the handler raise a KeyError, which it answers with 500;
  so does a non-empty \<^verbatim>\<open>data\<close> object without the key \<^verbatim>\<open>matchedUser\<close>. The store is
  unchanged in each of these cases.
\<close>

theorem fetch_now_400_exactly:
  "(status (fst (trigger_fetch env db)) = 400 \<longleftrightarrow>
      (\<exists>data. upstream env = Responded (Json data) \<and> no_matched_user data)) \<and>
   (upstream env = Responded (Json data) \<and>
    subscripts data [''data'', ''matchedUser''] = Inr (PDict m) \<and> m \<noteq> [] \<and>
    map_of m ''profile'' = None \<longrightarrow>
      trigger_fetch env db =
        (\<lparr>status = 500, body = PDict [(''success'', PBool False),
           (''message'', PStr (str_exc (KeyError ''profile'')))]\<rparr>, db)) \<and>
   (upstream env = Responded (Json data) \<and>
    subscripts data [''data'', ''matchedUser''] = Inr (PDict m) \<and>
    map_of m ''profile'' = Some (PDict p) \<and> map_of p ''ranking'' = None \<longrightarrow>
      trigger_fetch env db =
        (\<lparr>status = 500, body = PDict [(''success'', PBool False),
           (''message'', PStr (str_exc (KeyError ''ranking'')))]\<rparr>, db)) \<and>
   (upstream env = Responded (Json data) \<and>
    py_getitem data ''data'' = Inr (PDict d) \<and> d \<noteq> [] \<and>
    map_of d ''matchedUser'' = None \<longrightarrow>
      trigger_fetch env db =
        (\<lparr>status = 500, body = PDict [(''success'', PBool False),
           (''message'', PStr (str_exc (KeyError ''matchedUser'')))]\<rparr>, db))"
proof (intro conjI impI)
  show "status (fst (trigger_fetch env db)) = 400 \<longleftrightarrow>
      (\<exists>data. upstream env = Responded (Json data) \<and> no_matched_user data)"
    using trigger_fetch_cases [of env db] by (auto simp: jsonify_def)
next
  assume a: "upstream env = Responded (Json data) \<and>
    subscripts data [''data'', ''matchedUser''] = Inr (PDict m) \<and> m \<noteq> [] \<and>
    map_of m ''profile'' = None"
  then obtain d where d: "py_getitem data ''data'' = Inr d" "py_getitem d ''matchedUser'' = Inr (PDict m)"
    by (auto simp: bind_exc_eq_Inr)
  then obtain obj kvs where "data = PDict obj" "map_of obj ''data'' = Some d"
      "d = PDict kvs" "map_of kvs ''matchedUser'' = Some (PDict m)"
    by (cases data; cases d) (auto split: option.splits)
  with a show "trigger_fetch env db =
        (\<lparr>status = 500, body = PDict [(''success'', PBool False),
           (''message'', PStr (str_exc (KeyError ''profile'')))]\<rparr>, db)"
    by (auto simp: trigger_fetch_def trigger_fetch_try_def requests_post_def response_json_def
        matched_user_test_def jsonify_def)
next
  assume a: "upstream env = Responded (Json data) \<and>
    subscripts data [''data'', ''matchedUser''] = Inr (PDict m) \<and>
    map_of m ''profile'' = Some (PDict p) \<and> map_of p ''ranking'' = None"
  then obtain d where d: "py_getitem data ''data'' = Inr d" "py_getitem d ''matchedUser'' = Inr (PDict m)"
    by (auto simp: bind_exc_eq_Inr)
  then obtain obj kvs where "data = PDict obj" "map_of obj ''data'' = Some d"
      "d = PDict kvs" "map_of kvs ''matchedUser'' = Some (PDict m)"
    by (cases data; cases d) (auto split: option.splits)
  with a show "trigger_fetch env db =
        (\<lparr>status = 500, body = PDict [(''success'', PBool False),
           (''message'', PStr (str_exc (KeyError ''ranking'')))]\<rparr>, db)"
    by (auto simp: trigger_fetch_def trigger_fetch_try_def requests_post_def response_json_def
        matched_user_test_def jsonify_def)
next
  assume a: "upstream env = Responded (Json data) \<and>
    py_getitem data ''data'' = Inr (PDict d) \<and> d \<noteq> [] \<and>
    map_of d ''matchedUser'' = None"
  then obtain obj where "data = PDict obj" "map_of obj ''data'' = Some (PDict d)"
    by (cases data) (auto split: option.splits)
  with a show "trigger_fetch env db =
        (\<lparr>status = 500, body = PDict [(''success'', PBool False),
           (''message'', PStr (str_exc (KeyError ''matchedUser'')))]\<rparr>, db)"
    by (auto simp: trigger_fetch_def trigger_fetch_try_def requests_post_def response_json_def
        matched_user_test_def jsonify_def)
qed

theorem fetch_now_400_exactly_witness:
  "upstream (answer null_user_payload) = Responded (Json null_user_payload) \<and>
   no_matched_user null_user_payload \<and>
   status (fst (trigger_fetch (answer null_user_payload) empty_store)) = 400 \<and>
   trigger_fetch
     (answer (PDict [(''data'', PDict [(''matchedUser'', PDict [(''username'', PStr ''x'')])])]))
     empty_store =
     (\<lparr>status = 500, body = PDict [(''success'', PBool False),
        (''message'', PStr (str_exc (KeyError ''profile'')))]\<rparr>, empty_store) \<and>
   trigger_fetch
     (answer (PDict [(''data'', PDict [(''matchedUser'',
        PDict [(''profile'', PDict [(''realName'', PStr ''x'')])])])]))
     empty_store =
     (\<lparr>status = 500, body = PDict [(''success'', PBool False),
        (''message'', PStr (str_exc (KeyError ''ranking'')))]\<rparr>, empty_store) \<and>
   trigger_fetch (answer (PDict [(''data'', PDict [(''user'', PNone)])])) empty_store =
     (\<lparr>status = 500, body = PDict [(''success'', PBool False),
        (''message'', PStr (str_exc (KeyError ''matchedUser'')))]\<rparr>, empty_store)"
proof -
  let ?A = "PDict [(''data'', PDict [(''matchedUser'', PDict [(''username'', PStr ''x'')])])]"
  let ?B = "PDict [(''data'', PDict [(''matchedUser'',
        PDict [(''profile'', PDict [(''realName'', PStr ''x'')])])])]"
  let ?C = "PDict [(''data'', PDict [(''user'', PNone)])]"
  have a0: "upstream (answer null_user_payload) = Responded (Json null_user_payload) \<and>
      no_matched_user null_user_payload"
    by (simp add: scenario_defs no_matched_user_def)
  have a1: "upstream (answer ?A) = Responded (Json ?A) \<and>
      subscripts ?A [''data'', ''matchedUser''] = Inr (PDict [(''username'', PStr ''x'')]) \<and>
      [(''username'', PStr ''x'')] \<noteq> [] \<and>
      map_of [(''username'', PStr ''x'')] ''profile'' = None"
    by (simp add: scenario_defs)
  have a2: "upstream (answer ?B) = Responded (Json ?B) \<and>
      subscripts ?B [''data'', ''matchedUser''] =
        Inr (PDict [(''profile'', PDict [(''realName'', PStr ''x'')])]) \<and>
      map_of [(''profile'', PDict [(''realName'', PStr ''x'')])] ''profile'' =
        Some (PDict [(''realName'', PStr ''x'')]) \<and>
      map_of [(''realName'', PStr ''x'')] ''ranking'' = None"
    by (simp add: scenario_defs)
  have a3: "upstream (answer ?C) = Responded (Json ?C) \<and>
      py_getitem ?C ''data'' = Inr (PDict [(''user'', PNone)]) \<and>
      [(''user'', PNone)] \<noteq> [] \<and> map_of [(''user'', PNone)] ''matchedUser'' = None"
    by (simp add: scenario_defs)
  note T0 = fetch_now_400_exactly [where env = "answer null_user_payload" and db = empty_store]
  note T1 = fetch_now_400_exactly [where env = "answer ?A" and db = empty_store and data = ?A
      and m = "[(''username'', PStr ''x'')]"]
  note T2 = fetch_now_400_exactly [where env = "answer ?B" and db = empty_store and data = ?B
      and m = "[(''profile'', PDict [(''realName'', PStr ''x'')])]"
      and p = "[(''realName'', PStr ''x'')]"]
  note T3 = fetch_now_400_exactly [where env = "answer ?C" and db = empty_store and data = ?C
      and d = "[(''user'', PNone)]"]
  from T0 a0 have c0: "status (fst (trigger_fetch (answer null_user_payload) empty_store)) = 400"
    by blast
  from T1 a1 have c1: "trigger_fetch (answer ?A) empty_store =
     (\<lparr>status = 500, body = PDict [(''success'', PBool False),
        (''message'', PStr (str_exc (KeyError ''profile'')))]\<rparr>, empty_store)"
    by blast
  from T2 a2 have c2: "trigger_fetch (answer ?B) empty_store =
     (\<lparr>status = 500, body = PDict [(''success'', PBool False),
        (''message'', PStr (str_exc (KeyError ''ranking'')))]\<rparr>, empty_store)"
    by blast
  from T3 a3 have c3: "trigger_fetch (answer ?C) empty_store =
     (\<lparr>status = 500, body = PDict [(''success'', PBool False),
        (''message'', PStr (str_exc (KeyError ''matchedUser'')))]\<rparr>, empty_store)"
    by blast
  from a0 c0 c1 c2 c3 show ?thesis by blast
qed

end
